theory Spec2Isabelle
  imports Main "HOL-Library.AList" "HOL-Library.List_Lexorder" "HOL-Library.Char_ord"
begin

section \<open>Python values, objects and the object store\<close>

text \<open>
  The sorters keep their parameters in Python dictionaries, which are mutable objects held
  by reference: \<^verbatim>\<open>BaseSorter._default_params\<close> is one dictionary object per class,
  \<^verbatim>\<open>self.params\<close> one per instance. A value is an immutable atom or a reference to a
  container object of the store; the store is a list of objects, an address is an index
  into it, and allocation appends. Dictionaries are association lists in insertion order,
  as Python's are.
\<close>

type_synonym addr = nat

datatype pyval = PNone | PBool bool | PInt int | PStr string | PRef addr

datatype pyobj = PyDict "(string \<times> pyval) list" | PyList "pyval list"

type_synonym heap = "pyobj list"

text \<open>
  The exceptions of the code, as values. \<open>BadParameters bad\<close> is
  \<^verbatim>\<open>AttributeError('Bad parameters: ' + str(bad_params))\<close>; \<open>NoneTypeAttribute a\<close> is the
  \<^verbatim>\<open>AttributeError\<close> of looking attribute \<open>a\<close> up on \<^verbatim>\<open>None\<close>; \<open>KeyError k\<close> is a
  failed dictionary lookup; \<open>ValueError m\<close>, \<open>AssertionError m\<close> and \<open>RuntimeError m\<close> carry
  their message; \<open>Raised m\<close> is any exception raised by a collaborator (the recording,
  the file system) or by a sorter's own methods.
\<close>

datatype error =
    AssertionError string
  | RuntimeError string
  | BadParameters "string list"
  | NoneTypeAttribute string
  | KeyError string
  | ValueError string
  | IndexError
  | TypeError
  | RecursionError
  | Raised string

text \<open>Reading the dictionary a value refers to; anything else is not a dictionary.\<close>

definition get_dict :: "heap \<Rightarrow> pyval \<Rightarrow> error + (string \<times> pyval) list" where
  "get_dict h v =
     (case v of
        PRef a \<Rightarrow>
          (if a < length h then (case h ! a of PyDict kvs \<Rightarrow> Inr kvs | PyList xs \<Rightarrow> Inl TypeError)
           else Inl TypeError)
      | _ \<Rightarrow> Inl TypeError)"

text \<open>\<^verbatim>\<open>d.update(other)\<close>: every item of \<open>other\<close>, in its order, replaces the value of a
  key already present (in place) or is appended.\<close>

definition dict_update :: "(string \<times> pyval) list \<Rightarrow> (string \<times> pyval) list \<Rightarrow> (string \<times> pyval) list" where
  "dict_update d other = fold (\<lambda>(k, v) acc. AList.update k v acc) other d"

subsection \<open>copy.deepcopy\<close>

text \<open>
  \<^verbatim>\<open>copy.deepcopy\<close> returns an atom as it is and, for a container, allocates a new container
  whose elements are the deep copies of the elements (dictionary keys are strings, hence
  atoms). The first argument bounds the depth of the recursion, as the interpreter's
  recursion limit does: a structure nested deeper raises \<^verbatim>\<open>RecursionError\<close>. The memo table
  of \<^verbatim>\<open>copy.deepcopy\<close>, which keeps containers that are shared inside the copied structure
  shared inside the copy, is not modelled: a container reached along two paths is copied
  once per path, and a cyclic structure exhausts the depth bound.
\<close>

text \<open>The loops over the elements of a list and over the items of a dictionary, threading
  the store through the copies of the elements in their order.\<close>

primrec deepcopy_list ::
  "(heap \<Rightarrow> pyval \<Rightarrow> error + (heap \<times> pyval)) \<Rightarrow> heap \<Rightarrow> pyval list \<Rightarrow> error + (heap \<times> pyval list)" where
  "deepcopy_list cp h [] = Inr (h, [])"
| "deepcopy_list cp h (x # xs) =
     (case cp h x of
        Inl e \<Rightarrow> Inl e
      | Inr (h1, y) \<Rightarrow>
          (case deepcopy_list cp h1 xs of
             Inl e \<Rightarrow> Inl e
           | Inr (h2, ys) \<Rightarrow> Inr (h2, y # ys)))"

primrec deepcopy_items ::
  "(heap \<Rightarrow> pyval \<Rightarrow> error + (heap \<times> pyval)) \<Rightarrow> heap \<Rightarrow> (string \<times> pyval) list
     \<Rightarrow> error + (heap \<times> (string \<times> pyval) list)" where
  "deepcopy_items cp h [] = Inr (h, [])"
| "deepcopy_items cp h (kx # kvs) =
     (case cp h (snd kx) of
        Inl e \<Rightarrow> Inl e
      | Inr (h1, y) \<Rightarrow>
          (case deepcopy_items cp h1 kvs of
             Inl e \<Rightarrow> Inl e
           | Inr (h2, kvs') \<Rightarrow> Inr (h2, (fst kx, y) # kvs')))"

primrec deepcopy :: "nat \<Rightarrow> heap \<Rightarrow> pyval \<Rightarrow> error + (heap \<times> pyval)" where
  "deepcopy 0 h v = (case v of PRef a \<Rightarrow> Inl RecursionError | _ \<Rightarrow> Inr (h, v))"
| "deepcopy (Suc n) h v =
     (case v of
        PRef a \<Rightarrow>
          (if a < length h then
             (case h ! a of
                PyList xs \<Rightarrow>
                  (case deepcopy_list (deepcopy n) h xs of
                     Inl e \<Rightarrow> Inl e
                   | Inr (h', ys) \<Rightarrow> Inr (h' @ [PyList ys], PRef (length h')))
              | PyDict kvs \<Rightarrow>
                  (case deepcopy_items (deepcopy n) h kvs of
                     Inl e \<Rightarrow> Inl e
                   | Inr (h', kvs') \<Rightarrow> Inr (h' @ [PyDict kvs'], PRef (length h'))))
           else Inl TypeError)
      | _ \<Rightarrow> Inr (h, v))"

section \<open>Collaborators: paths, recordings, sorting results, the outside world\<close>

text \<open>A path, as \<^verbatim>\<open>pathlib.Path\<close> holds it, is its list of components; \<open>p / name\<close> appends one.\<close>

type_synonym path = "string list"

definition joinpath :: "path \<Rightarrow> string \<Rightarrow> path" where
  "joinpath p name = p @ [name]"

text \<open>\<^verbatim>\<open>str(i)\<close> of a non-negative integer: its decimal digits.\<close>

fun str_nat :: "nat \<Rightarrow> string" where
  "str_nat n =
     (if n < 10 then [''0123456789'' ! n]
      else str_nat (n div 10) @ [''0123456789'' ! (n mod 10)])"

declare str_nat.simps [simp del]

text \<open>\<^verbatim>\<open>xs[i]\<close> raises \<^verbatim>\<open>IndexError\<close> out of range.\<close>

definition nth_py :: "'a list \<Rightarrow> nat \<Rightarrow> error + 'a" where
  "nth_py xs i = (if i < length xs then Inr (xs ! i) else Inl IndexError)"

text \<open>
  A recording (\<^verbatim>\<open>spikeextractors.RecordingExtractor\<close>) as the lifecycle reads it: its
  channel ids, \<^verbatim>\<open>get_channel_property(channel, name)\<close> (\<open>None\<close> where the accessor raises
  because the property is not set), \<^verbatim>\<open>get_shared_channel_property_names()\<close> and the
  sampling frequency. The frequency is only passed along, never computed with; it is an
  integer here.
\<close>

record recording =
  channel_ids :: "int list"
  channel_property :: "int \<Rightarrow> string \<Rightarrow> pyval option"
  shared_channel_property_names :: "string list"
  sampling_frequency :: int

definition get_channel_property :: "recording \<Rightarrow> int \<Rightarrow> string \<Rightarrow> error + pyval" where
  "get_channel_property r ch name =
     (case channel_property r ch name of
        None \<Rightarrow> Inl (Raised ''get_channel_property'')
      | Some v \<Rightarrow> Inr v)"

text \<open>
  A sorting result (\<^verbatim>\<open>spikeextractors.SortingExtractor\<close>): unit ids, the properties set on
  units, and the sampling frequency once set. \<^verbatim>\<open>se.MultiSortingExtractor(sortings=l)\<close> holds
  the list of sortings it was built from.
\<close>

record sorting =
  unit_ids :: "int list"
  unit_properties :: "((int \<times> string) \<times> pyval) list"
  sorting_frequency :: "int option"

definition set_unit_property :: "int \<Rightarrow> string \<Rightarrow> pyval \<Rightarrow> sorting \<Rightarrow> sorting" where
  "set_unit_property unit name v s =
     s\<lparr>unit_properties := AList.update (unit, name) v (unit_properties s)\<rparr>"

definition get_unit_property :: "sorting \<Rightarrow> int \<Rightarrow> string \<Rightarrow> pyval option" where
  "get_unit_property s unit name = map_of (unit_properties s) (unit, name)"

datatype sorting_result =
    SortingExtractor sorting
  | MultiSortingExtractor "sorting list" "int option"

definition set_sampling_frequency :: "int \<Rightarrow> sorting_result \<Rightarrow> sorting_result" where
  "set_sampling_frequency f r =
     (case r of
        SortingExtractor s \<Rightarrow> SortingExtractor (s\<lparr>sorting_frequency := Some f\<rparr>)
      | MultiSortingExtractor ss old \<Rightarrow> MultiSortingExtractor ss (Some f))"

text \<open>
  Everything outside the object store (the file system, the clock, the external tools) is
  a world of type \<open>'w\<close>, reached through the operations the code calls:
  \<^verbatim>\<open>Path(s).absolute()\<close>, \<^verbatim>\<open>Path.is_dir\<close>, \<^verbatim>\<open>Path.is_file\<close>, \<^verbatim>\<open>os.makedirs\<close>,
  \<^verbatim>\<open>shutil.rmtree(..., ignore_errors=True)\<close>, \<^verbatim>\<open>time.perf_counter\<close> (in ticks),
  \<^verbatim>\<open>recording.get_sub_extractors_by_property\<close>, and the interpreter's recursion limit.
  An operation that can raise returns its outcome together with the world it leaves.
\<close>

record 'w env =
  absolute :: "string \<Rightarrow> path"
  is_dir :: "path \<Rightarrow> 'w \<Rightarrow> bool"
  is_file :: "path \<Rightarrow> 'w \<Rightarrow> bool"
  makedirs :: "path \<Rightarrow> 'w \<Rightarrow> (error + unit) \<times> 'w"
  rmtree :: "path \<Rightarrow> 'w \<Rightarrow> 'w"
  perf_counter :: "'w \<Rightarrow> int"
  get_sub_extractors_by_property :: "recording \<Rightarrow> string \<Rightarrow> error + recording list"
  recursion_limit :: nat

section \<open>basesorter.py: BaseSorter\<close>

text \<open>
  The class attributes of a sorter class. \<open>default_params_ref\<close> is the attribute
  \<^verbatim>\<open>_default_params\<close>: the address of the class's dictionary of defaults. \<open>kilosort_path\<close>
  is the path attribute of \<^verbatim>\<open>KilosortSorter\<close>.
\<close>

record sorter_class =
  sorter_name :: string
  installed :: bool
  requires_locations :: bool
  default_params_ref :: addr
  installation_mesg :: string
  kilosort_path :: "string option"

text \<open>The attributes \<^verbatim>\<open>__init__\<close> sets on an instance; \<open>cls\<close> is the instance's class.\<close>

record base_sorter =
  cls :: sorter_class
  verbose :: bool
  grouping_property :: "string option"
  parallel :: bool
  params :: pyval
  recording_list :: "recording list"
  output_folders :: "path list"
  delete_folders :: bool

text \<open>
  The methods a subclass implements: \<^verbatim>\<open>_setup_recording\<close>, \<^verbatim>\<open>_run\<close> and the static
  \<^verbatim>\<open>get_result_from_folder\<close>. They read the instance and the store and act on the world.
\<close>

record 'w sorter_methods =
  setup_recording :: "base_sorter \<Rightarrow> heap \<Rightarrow> recording \<Rightarrow> path \<Rightarrow> 'w \<Rightarrow> (error + unit) \<times> 'w"
  run_recording :: "base_sorter \<Rightarrow> heap \<Rightarrow> recording \<Rightarrow> path \<Rightarrow> 'w \<Rightarrow> (error + unit) \<times> 'w"
  get_result_from_folder :: "path \<Rightarrow> 'w \<Rightarrow> error + sorting option"

text \<open>\<^verbatim>\<open>default_params\<close> (a class method): \<^verbatim>\<open>copy.deepcopy(self._default_params)\<close>.\<close>

definition default_params :: "'w env \<Rightarrow> sorter_class \<Rightarrow> heap \<Rightarrow> (error + pyval) \<times> heap" where
  "default_params os c h =
     (case deepcopy (recursion_limit os) h (PRef (default_params_ref c)) of
        Inl e \<Rightarrow> (Inl e, h)
      | Inr (h', v) \<Rightarrow> (Inr v, h'))"

text \<open>The loop of \<^verbatim>\<open>__init__\<close> that makes the folders.\<close>

fun make_folders :: "'w env \<Rightarrow> path list \<Rightarrow> 'w \<Rightarrow> (error + unit) \<times> 'w" where
  "make_folders os [] w = (Inr (), w)"
| "make_folders os (output_folder # rest) w =
     (if \<not> is_dir os output_folder w then
        (case makedirs os output_folder w of
           (Inl e, w') \<Rightarrow> (Inl e, w')
         | (Inr u, w') \<Rightarrow> make_folders os rest w')
      else make_folders os rest w)"

text \<open>
  \<^verbatim>\<open>BaseSorter.__init__\<close>. The result is the new instance or the exception, with the store
  and the world as the constructor leaves them.
\<close>

definition init ::
  "'w env \<Rightarrow> sorter_class \<Rightarrow> recording \<Rightarrow> string option \<Rightarrow> bool \<Rightarrow> string option \<Rightarrow> bool \<Rightarrow> bool
     \<Rightarrow> heap \<Rightarrow> 'w \<Rightarrow> (error + base_sorter) \<times> heap \<times> 'w" where
  "init os c recording output_folder verbose_arg grouping_property_arg parallel_arg
        delete_output_folder h w =
     (if \<not> installed c then (Inl (AssertionError (sorter_name c)), h, w)
      else if requires_locations c \<and> ''location'' \<notin> set (shared_channel_property_names recording)
      then (Inl (RuntimeError ''Channel locations are required for this spike sorter.''), h, w)
      else
        (case default_params os c h of
           (Inl e, h') \<Rightarrow> (Inl e, h', w)
         | (Inr p, h') \<Rightarrow>
             (let base = absolute os
                    (case output_folder of None \<Rightarrow> ''tmp_'' @ sorter_name c | Some f \<Rightarrow> f)
              in
                (case
                   (case grouping_property_arg of
                      None \<Rightarrow> Inr ([recording], [base])
                    | Some g \<Rightarrow>
                        (case get_sub_extractors_by_property os recording g of
                           Inl e \<Rightarrow> Inl e
                         | Inr rl \<Rightarrow>
                             (let n_group = length rl in
                                if n_group > 1
                                then Inr (rl, map (\<lambda>i. joinpath base (str_nat i)) [0..<n_group])
                                else Inr (rl, [joinpath base (str_nat 0)]))))
                 of
                   Inl e \<Rightarrow> (Inl e, h', w)
                 | Inr (rl, folders) \<Rightarrow>
                     (case make_folders os folders w of
                        (Inl e, w') \<Rightarrow> (Inl e, h', w')
                      | (Inr u, w') \<Rightarrow>
                          (Inr \<lparr>cls = c, verbose = verbose_arg,
                                grouping_property = grouping_property_arg,
                                parallel = parallel_arg, params = p,
                                recording_list = rl, output_folders = folders,
                                delete_folders = delete_output_folder\<rparr>, h', w'))))))"

text \<open>The first loop of \<^verbatim>\<open>set_params\<close>: the supplied keys that are no key of the class's
  defaults, in the order supplied.\<close>

fun bad_params_of :: "heap \<Rightarrow> pyval \<Rightarrow> string list \<Rightarrow> error + string list" where
  "bad_params_of h d [] = Inr []"
| "bad_params_of h d (p # ps) =
     (case get_dict h d of
        Inl e \<Rightarrow> Inl e
      | Inr dflt \<Rightarrow>
          (case bad_params_of h d ps of
             Inl e \<Rightarrow> Inl e
           | Inr bad \<Rightarrow> Inr (if p \<notin> set (map fst dflt) then p # bad else bad)))"

text \<open>\<^verbatim>\<open>set_params(**params)\<close>; the keyword arguments are the items of \<open>kw\<close>, in order.\<close>

definition set_params :: "base_sorter \<Rightarrow> (string \<times> pyval) list \<Rightarrow> heap \<Rightarrow> (error + unit) \<times> heap" where
  "set_params self kw h =
     (case bad_params_of h (PRef (default_params_ref (cls self))) (map fst kw) of
        Inl e \<Rightarrow> (Inl e, h)
      | Inr bad_params \<Rightarrow>
          (if length bad_params > 0 then (Inl (BadParameters bad_params), h)
           else
             (case get_dict h (params self) of
                Inl e \<Rightarrow> (Inl e, h)
              | Inr d \<Rightarrow>
                  (case params self of
                     PRef a \<Rightarrow> (Inr (), h[a := PyDict (dict_update d kw)])
                   | _ \<Rightarrow> (Inl TypeError, h)))))"

text \<open>
  The loop \<^verbatim>\<open>for i, recording in enumerate(self.recording_list)\<close> that calls a method
  with \<^verbatim>\<open>(recording, self.output_folders[i])\<close>: the calls are made in the order of the
  list, and the first one that raises ends the loop.
\<close>

fun for_each_recording ::
  "(recording \<Rightarrow> path \<Rightarrow> 'w \<Rightarrow> (error + unit) \<times> 'w) \<Rightarrow> path list \<Rightarrow> nat \<Rightarrow> recording list \<Rightarrow> 'w
     \<Rightarrow> (error + unit) \<times> 'w" where
  "for_each_recording f folders i [] w = (Inr (), w)"
| "for_each_recording f folders i (recording # rest) w =
     (case nth_py folders i of
        Inl e \<Rightarrow> (Inl e, w)
      | Inr folder \<Rightarrow>
          (case f recording folder w of
             (Inl e, w') \<Rightarrow> (Inl e, w')
           | (Inr u, w') \<Rightarrow> for_each_recording f folders (Suc i) rest w'))"

text \<open>
  The parallel branch of \<^verbatim>\<open>run\<close>. The first loop creates and starts one thread per
  recording, with target \<^verbatim>\<open>self._run\<close> and the arguments evaluated by the main thread;
  \<open>thread_args\<close> is the list of those arguments (and the \<^verbatim>\<open>IndexError\<close> that ends the loop,
  if any). The second loop joins every thread, so every started thread runs its target
  before \<^verbatim>\<open>run\<close> goes on. Each thread's call of \<^verbatim>\<open>_run\<close> is taken as one step on the world;
  the order of these steps is the scheduler's: \<open>sched\<close> lists thread numbers, and
  \<open>thread_order n sched\<close> is the order in which the \<open>n\<close> threads take their step (numbers
  out of range and repetitions are dropped, threads not listed come last). An exception
  raised inside a thread ends that thread only.
\<close>

fun thread_args :: "path list \<Rightarrow> nat \<Rightarrow> recording list \<Rightarrow> (recording \<times> path) list \<times> error option" where
  "thread_args folders i [] = ([], None)"
| "thread_args folders i (recording # rest) =
     (case nth_py folders i of
        Inl e \<Rightarrow> ([], Some e)
      | Inr folder \<Rightarrow>
          (case thread_args folders (Suc i) rest of
             (ts, e) \<Rightarrow> ((recording, folder) # ts, e)))"

definition thread_order :: "nat \<Rightarrow> nat list \<Rightarrow> nat list" where
  "thread_order n sched =
     remdups (filter (\<lambda>k. k < n) sched) @ filter (\<lambda>k. k \<notin> set sched) [0..<n]"

definition run_threads ::
  "(recording \<Rightarrow> path \<Rightarrow> 'w \<Rightarrow> (error + unit) \<times> 'w) \<Rightarrow> nat list \<Rightarrow> path list \<Rightarrow> recording list \<Rightarrow> 'w
     \<Rightarrow> (error + unit) \<times> 'w" where
  "run_threads target sched folders recordings w =
     (case thread_args folders 0 recordings of
        (ts, e) \<Rightarrow>
          (let w' = fold (\<lambda>k w. snd (target (fst (ts ! k)) (snd (ts ! k)) w))
                      (thread_order (length ts) sched) w
           in (case e of Some err \<Rightarrow> (Inl err, w') | None \<Rightarrow> (Inr (), w'))))"

text \<open>\<^verbatim>\<open>BaseSorter.run\<close>; it returns \<^verbatim>\<open>t1 - t0\<close>. The report printed when verbose is left out.\<close>

definition run ::
  "'w env \<Rightarrow> 'w sorter_methods \<Rightarrow> nat list \<Rightarrow> base_sorter \<Rightarrow> heap \<Rightarrow> 'w \<Rightarrow> (error + int) \<times> 'w" where
  "run os m sched self h w =
     (case for_each_recording (setup_recording m self h) (output_folders self) 0
             (recording_list self) w of
        (Inl e, w1) \<Rightarrow> (Inl e, w1)
      | (Inr u, w1) \<Rightarrow>
          (let t0 = perf_counter os w1 in
             (case
                (if \<not> parallel self
                 then for_each_recording (run_recording m self h) (output_folders self) 0
                        (recording_list self) w1
                 else run_threads (run_recording m self h) sched (output_folders self)
                        (recording_list self) w1)
              of
                (Inl e, w2) \<Rightarrow> (Inl e, w2)
              | (Inr u, w2) \<Rightarrow> (let t1 = perf_counter os w2 in (Inr (t1 - t0), w2)))))"

text \<open>\<^verbatim>\<open>get_result_list\<close>: one result slot per recording, in order.\<close>

fun get_result_list_from ::
  "'w sorter_methods \<Rightarrow> path list \<Rightarrow> nat \<Rightarrow> recording list \<Rightarrow> 'w \<Rightarrow> error + sorting option list" where
  "get_result_list_from m folders i [] w = Inr []"
| "get_result_list_from m folders i (recording # rest) w =
     (case nth_py folders i of
        Inl e \<Rightarrow> Inl e
      | Inr folder \<Rightarrow>
          (case get_result_from_folder m folder w of
             Inl e \<Rightarrow> Inl e
           | Inr sorting \<Rightarrow>
               (case get_result_list_from m folders (Suc i) rest w of
                  Inl e \<Rightarrow> Inl e
                | Inr sorting_list \<Rightarrow> Inr (sorting # sorting_list))))"

definition get_result_list :: "'w sorter_methods \<Rightarrow> base_sorter \<Rightarrow> 'w \<Rightarrow> error + sorting option list" where
  "get_result_list m self w =
     get_result_list_from m (output_folders self) 0 (recording_list self) w"

text \<open>The inner loop of \<^verbatim>\<open>get_result\<close>: every unit of a sorting gets the property
  \<^verbatim>\<open>'group'\<close>.\<close>

definition tag_units :: "pyval \<Rightarrow> sorting \<Rightarrow> sorting" where
  "tag_units grp s = fold (\<lambda>unit. set_unit_property unit ''group'' grp) (unit_ids s) s"

text \<open>
  The group of a partition, as the loop of \<^verbatim>\<open>get_result\<close> reads it: the property
  \<^verbatim>\<open>'group'\<close> of the first channel of the partition's recording.
\<close>

definition first_channel_group :: "recording \<Rightarrow> error + pyval" where
  "first_channel_group recording =
     (case nth_py (channel_ids recording) 0 of
        Inl e \<Rightarrow> Inl e
      | Inr ch \<Rightarrow> get_channel_property recording ch ''group'')"

text \<open>
  The outer loop of \<^verbatim>\<open>get_result\<close> over \<^verbatim>\<open>enumerate(sorting_list)\<close>: the group is read from
  the first channel of \<^verbatim>\<open>self.recording_list[i]\<close> for every slot, also an empty one, and a
  sorting that is not \<^verbatim>\<open>None\<close> is tagged with it. The results of the partitions are
  distinct objects, so tagging one leaves the others as they are.
\<close>

fun tag_groups :: "recording list \<Rightarrow> nat \<Rightarrow> sorting option list \<Rightarrow> error + sorting option list" where
  "tag_groups rl i [] = Inr []"
| "tag_groups rl i (sorting # rest) =
     (case nth_py rl i of
        Inl e \<Rightarrow> Inl e
      | Inr recording \<Rightarrow>
          (case first_channel_group recording of
             Inl e \<Rightarrow> Inl e
           | Inr grp \<Rightarrow>
               (case tag_groups rl (Suc i) rest of
                  Inl e \<Rightarrow> Inl e
                | Inr rest' \<Rightarrow> Inr (map_option (tag_units grp) sorting # rest'))))"

text \<open>
  \<^verbatim>\<open>BaseSorter.get_result\<close>. The variable \<^verbatim>\<open>sorting\<close> holds a result object or \<^verbatim>\<open>None\<close>;
  the last statement looks \<^verbatim>\<open>set_sampling_frequency\<close> up on it, then evaluates
  \<^verbatim>\<open>self.recording_list[0]\<close>. The lines printed when verbose are left out.
\<close>

definition get_result ::
  "'w env \<Rightarrow> 'w sorter_methods \<Rightarrow> base_sorter \<Rightarrow> 'w \<Rightarrow> (error + sorting_result) \<times> 'w" where
  "get_result os m self w =
     (case get_result_list m self w of
        Inl e \<Rightarrow> (Inl e, w)
      | Inr sorting_list \<Rightarrow>
          (case
             (if length sorting_list = 1
              then Inr (map_option SortingExtractor (sorting_list ! 0))
              else
                (case tag_groups (recording_list self) 0 sorting_list of
                   Inl e \<Rightarrow> Inl e
                 | Inr tagged \<Rightarrow>
                     Inr (Some (MultiSortingExtractor (List.map_filter (\<lambda>sort. sort) tagged) None))))
           of
             Inl e \<Rightarrow> (Inl e, w)
           | Inr sorting \<Rightarrow>
               (let w' = (if delete_folders self then fold (rmtree os) (output_folders self) w
                          else w)
                in
                  (case sorting of
                     None \<Rightarrow> (Inl (NoneTypeAttribute ''set_sampling_frequency''), w')
                   | Some s \<Rightarrow>
                       (case nth_py (recording_list self) 0 of
                          Inl e \<Rightarrow> (Inl e, w')
                        | Inr recording \<Rightarrow>
                            (Inr (set_sampling_frequency (sampling_frequency recording) s), w'))))))"

section \<open>kilosort.py: the installed flag of KilosortSorter\<close>

text \<open>
  Classes are objects, named here by an identity; their attributes are a table from
  identities to \<open>sorter_class\<close>, which \<^verbatim>\<open>set_kilosort_path\<close> updates. \<open>KilosortSorter\<close> is the
  fifth class of \<^verbatim>\<open>sorter_full_list\<close>.
\<close>

type_synonym class_id = nat

definition KilosortSorter :: class_id where
  "KilosortSorter = 4"

definition check_if_installed :: "'w env \<Rightarrow> 'w \<Rightarrow> string option \<Rightarrow> bool" where
  "check_if_installed os w path_arg =
     (case path_arg of
        None \<Rightarrow> False
      | Some p \<Rightarrow>
          (let p' = (if p \<noteq> [] \<and> hd p = CHR 0x22 then butlast (tl p) else p)
           in is_file os (joinpath (absolute os p') ''preprocessData.m'') w))"

text \<open>\<^verbatim>\<open>KilosortSorter.set_kilosort_path\<close>; the environment variable it also sets is left out.\<close>

definition set_kilosort_path ::
  "'w env \<Rightarrow> 'w \<Rightarrow> string \<Rightarrow> (class_id \<Rightarrow> sorter_class) \<Rightarrow> (class_id \<Rightarrow> sorter_class)" where
  "set_kilosort_path os w path_arg classes =
     (let c1 = (classes KilosortSorter)\<lparr>kilosort_path := Some path_arg\<rparr>;
          c2 = c1\<lparr>installed := check_if_installed os w (kilosort_path c1)\<rparr>
      in classes(KilosortSorter := c2))"

section \<open>sorterlist.py: the registry and the dispatch\<close>

text \<open>
  The three module-level names, computed once when the module is loaded:
  \<^verbatim>\<open>sorter_full_list\<close>, \<^verbatim>\<open>sorter_dict\<close> (a dictionary comprehension: a later class of the same
  name replaces an earlier one) and \<^verbatim>\<open>installed_sorter_list\<close>.
\<close>

record sorterlist =
  sorter_full_list :: "class_id list"
  sorter_dict :: "(string \<times> class_id) list"
  installed_sorter_list :: "class_id list"

definition load_sorterlist :: "(class_id \<Rightarrow> sorter_class) \<Rightarrow> class_id list \<Rightarrow> sorterlist" where
  "load_sorterlist classes full =
     \<lparr>sorter_full_list = full,
      sorter_dict = fold (\<lambda>s d. AList.update (sorter_name (classes s)) s d) full [],
      installed_sorter_list = filter (\<lambda>s. installed (classes s)) full\<rparr>"

text \<open>The argument \<^verbatim>\<open>sorter_name_or_class\<close>: a string, or any other object (a class is
  one), named by its identity.\<close>

datatype sorter_arg = Str string | Obj class_id

text \<open>The first statement of \<^verbatim>\<open>run_sorter\<close> and of \<^verbatim>\<open>get_default_params\<close>.\<close>

definition resolve_sorter :: "sorterlist \<Rightarrow> sorter_arg \<Rightarrow> error + class_id" where
  "resolve_sorter md sorter_name_or_class =
     (case sorter_name_or_class of
        Str name \<Rightarrow>
          (case map_of (sorter_dict md) name of
             None \<Rightarrow> Inl (KeyError name)
           | Some c \<Rightarrow> Inr c)
      | Obj c \<Rightarrow>
          (if c \<in> set (sorter_full_list md) then Inr c
           else Inl (ValueError ''Unknown sorter'')))"

definition run_sorter ::
  "'w env \<Rightarrow> (class_id \<Rightarrow> sorter_class) \<Rightarrow> (class_id \<Rightarrow> 'w sorter_methods) \<Rightarrow> sorterlist \<Rightarrow> nat list
     \<Rightarrow> sorter_arg \<Rightarrow> recording \<Rightarrow> string option \<Rightarrow> bool \<Rightarrow> string option \<Rightarrow> bool \<Rightarrow> bool
     \<Rightarrow> (string \<times> pyval) list \<Rightarrow> heap \<Rightarrow> 'w \<Rightarrow> (error + sorting_result) \<times> heap \<times> 'w" where
  "run_sorter os classes methods md sched sorter_name_or_class recording output_folder
        delete_output_folder grouping_property_arg parallel_arg verbose_arg kw h w =
     (case resolve_sorter md sorter_name_or_class of
        Inl e \<Rightarrow> (Inl e, h, w)
      | Inr c \<Rightarrow>
          (case init os (classes c) recording output_folder verbose_arg grouping_property_arg
                  parallel_arg delete_output_folder h w of
             (Inl e, h1, w1) \<Rightarrow> (Inl e, h1, w1)
           | (Inr sorter, h1, w1) \<Rightarrow>
               (case set_params sorter kw h1 of
                  (Inl e, h2) \<Rightarrow> (Inl e, h2, w1)
                | (Inr u, h2) \<Rightarrow>
                    (case run os (methods c) sched sorter h2 w1 of
                       (Inl e, w2) \<Rightarrow> (Inl e, h2, w2)
                     | (Inr t, w2) \<Rightarrow>
                         (case get_result os (methods c) sorter w2 of
                            (r, w3) \<Rightarrow> (r, h2, w3))))))"

definition available_sorters :: "sorterlist \<Rightarrow> string list" where
  "available_sorters md = sort (map fst (sorter_dict md))"

definition installed_sorters :: "(class_id \<Rightarrow> sorter_class) \<Rightarrow> sorterlist \<Rightarrow> string list" where
  "installed_sorters classes md =
     sort (map (\<lambda>s. sorter_name (classes s)) (installed_sorter_list md))"

definition get_default_params ::
  "'w env \<Rightarrow> (class_id \<Rightarrow> sorter_class) \<Rightarrow> sorterlist \<Rightarrow> sorter_arg \<Rightarrow> heap \<Rightarrow> (error + pyval) \<times> heap" where
  "get_default_params os classes md sorter_name_or_class h =
     (case resolve_sorter md sorter_name_or_class of
        Inl e \<Rightarrow> (Inl e, h)
      | Inr c \<Rightarrow> default_params os (classes c) h)"

section \<open>The value a reference stands for, and mutation\<close>

text \<open>
  The nested value reached from a Python value: an atom, or the elements of the list or
  the items of the dictionary a reference leads to, read to the given depth. \<open>None\<close> when
  the structure is deeper than that or a reference leads nowhere.
\<close>

datatype pytree = Atom pyval | ListOf "pytree list" | DictOf "(string \<times> pytree) list"

primrec readval :: "nat \<Rightarrow> heap \<Rightarrow> pyval \<Rightarrow> pytree option" where
  "readval 0 h v = (case v of PRef a \<Rightarrow> None | _ \<Rightarrow> Some (Atom v))"
| "readval (Suc n) h v =
     (case v of
        PRef a \<Rightarrow>
          (if a < length h then
             (case h ! a of
                PyList xs \<Rightarrow> map_option ListOf (those (map (readval n h) xs))
              | PyDict kvs \<Rightarrow>
                  map_option (\<lambda>ts. DictOf (zip (map fst kvs) ts))
                    (those (map (readval n h) (map snd kvs))))
           else None)
      | _ \<Rightarrow> Some (Atom v))"

text \<open>A value is fresh above \<open>L\<close> when it is an atom or refers to an object at address \<open>L\<close>
  or later; \<open>all_fresh L obs\<close> says so of every value stored in the objects \<open>obs\<close>.\<close>

definition fresh :: "nat \<Rightarrow> pyval \<Rightarrow> bool" where
  "fresh L v = (case v of PRef a \<Rightarrow> L \<le> a | _ \<Rightarrow> True)"

definition obj_vals :: "pyobj \<Rightarrow> pyval list" where
  "obj_vals ob = (case ob of PyDict kvs \<Rightarrow> map snd kvs | PyList xs \<Rightarrow> xs)"

definition all_fresh :: "nat \<Rightarrow> pyobj list \<Rightarrow> bool" where
  "all_fresh L obs = list_all (\<lambda>ob. list_all (fresh L) (obj_vals ob)) obs"

text \<open>
  What a caller can do to a container it holds: \<^verbatim>\<open>d[k] = v\<close>, \<^verbatim>\<open>del d[k]\<close>, \<^verbatim>\<open>l.append(v)\<close>
  and \<^verbatim>\<open>l[i] = v\<close> on the object at an address. A statement that raises (wrong kind of
  object, missing key, index out of range) leaves the store as it is.
\<close>

datatype mutation =
    SetItem addr string pyval
  | DelItem addr string
  | ListAppend addr pyval
  | ListSetItem addr nat pyval

fun target :: "mutation \<Rightarrow> addr" where
  "target (SetItem a k v) = a"
| "target (DelItem a k) = a"
| "target (ListAppend a v) = a"
| "target (ListSetItem a i v) = a"

fun apply_mutation :: "mutation \<Rightarrow> heap \<Rightarrow> heap" where
  "apply_mutation (SetItem a k v) h =
     (if a < length h then
        (case h ! a of PyDict kvs \<Rightarrow> h[a := PyDict (AList.update k v kvs)] | PyList xs \<Rightarrow> h)
      else h)"
| "apply_mutation (DelItem a k) h =
     (if a < length h then
        (case h ! a of PyDict kvs \<Rightarrow> h[a := PyDict (AList.delete k kvs)] | PyList xs \<Rightarrow> h)
      else h)"
| "apply_mutation (ListAppend a v) h =
     (if a < length h then
        (case h ! a of PyList xs \<Rightarrow> h[a := PyList (xs @ [v])] | PyDict kvs \<Rightarrow> h)
      else h)"
| "apply_mutation (ListSetItem a i v) h =
     (if a < length h then
        (case h ! a of PyList xs \<Rightarrow> h[a := PyList (xs[i := v])] | PyDict kvs \<Rightarrow> h)
      else h)"

definition mutate :: "mutation list \<Rightarrow> heap \<Rightarrow> heap" where
  "mutate ms h = fold apply_mutation ms h"

text \<open>The invariant of the parameter set: the instance's parameters and the class's
  defaults are dictionaries, and every key of the former is a key of the latter.\<close>

definition params_keys_ok :: "base_sorter \<Rightarrow> heap \<Rightarrow> bool" where
  "params_keys_ok self h =
     (case get_dict h (params self) of
        Inl e \<Rightarrow> False
      | Inr d \<Rightarrow>
          (case get_dict h (PRef (default_params_ref (cls self))) of
             Inl e \<Rightarrow> False
           | Inr dflt \<Rightarrow> set (map fst d) \<subseteq> set (map fst dflt)))"

section \<open>Observing the calls of a sorter's methods\<close>










section \<open>Example objects\<close>

text \<open>
  A class whose defaults are \<^verbatim>\<open>{'a': 0, 'b': [1]}\<close> and an instance of it whose parameters
  are its own copy of the defaults: the store holds the class's list at address 0, the
  class's dictionary at 1, the instance's list at 2 and the instance's dictionary at 3.
  The world of the examples is the list of the paths that exist; \<open>example_env\<close> resolves a
  relative path under \<open>home\<close>, finds one group for every property and allows three levels
  of recursion. The methods of \<open>silent_methods\<close> do nothing and find no output. The nine
  classes of \<open>example_classes\<close> carry the names of the registry's sorters, and none is
  installed.
\<close>

definition example_class :: sorter_class where
  "example_class =
     \<lparr>sorter_name = ''example'', installed = True, requires_locations = False,
      default_params_ref = 1, installation_mesg = [], kilosort_path = None\<rparr>"

definition example_heap :: heap where
  "example_heap =
     [PyList [PInt 1], PyDict [(''a'', PInt 0), (''b'', PRef 0)],
      PyList [PInt 1], PyDict [(''a'', PInt 0), (''b'', PRef 2)]]"

definition example_recording :: recording where
  "example_recording =
     \<lparr>channel_ids = [0, 1],
      channel_property = (\<lambda>ch name. if name = ''group'' then Some (PInt 0) else None),
      shared_channel_property_names = [''group''], sampling_frequency = 30000\<rparr>"

definition example_sorter :: base_sorter where
  "example_sorter =
     \<lparr>cls = example_class, verbose = False, grouping_property = None, parallel = False,
      params = PRef 3, recording_list = [example_recording],
      output_folders = [[''home'', ''tmp_example'']], delete_folders = False\<rparr>"

definition example_env :: "(path list) env" where
  "example_env =
     \<lparr>absolute = (\<lambda>s. [''home'', s]),
      is_dir = (\<lambda>p w. p \<in> set w),
      is_file = (\<lambda>p w. p \<in> set w),
      makedirs = (\<lambda>p w. (Inr (), p # w)),
      rmtree = (\<lambda>p w. removeAll p w),
      perf_counter = (\<lambda>w. int (length w)),
      get_sub_extractors_by_property = (\<lambda>r g. Inr [r]),
      recursion_limit = 3\<rparr>"

definition silent_methods :: "(path list) sorter_methods" where
  "silent_methods =
     \<lparr>setup_recording = (\<lambda>self h r p w. (Inr (), w)),
      run_recording = (\<lambda>self h r p w. (Inr (), w)),
      get_result_from_folder = (\<lambda>p w. Inr None)\<rparr>"

definition example_classes :: "class_id \<Rightarrow> sorter_class" where
  "example_classes c =
     \<lparr>sorter_name =
        (if c < 9 then
           [''klusta'', ''tridesclous'', ''mountainsort4'', ''ironclust'', ''kilosort'',
            ''kilosort2'', ''spykingcircus'', ''herdingspikes'', ''waveclus''] ! c
         else ''other''),
      installed = False, requires_locations = False, default_params_ref = 1,
      installation_mesg = [], kilosort_path = None\<rparr>"

definition example_sorterlist :: sorterlist where
  "example_sorterlist = load_sorterlist example_classes [0, 1, 2, 3, 4, 5, 6, 7, 8]"

text \<open>
  The store after \<^verbatim>\<open>default_params\<close> has copied the class's defaults once more (the copy
  of the list at address 4, the copy of the dictionary at 5), and the instances that
  \<^verbatim>\<open>__init__\<close> builds from the example class in the example store, without and with a
  grouping property.
\<close>

definition example_heap2 :: heap where
  "example_heap2 = example_heap @ [PyList [PInt 1], PyDict [(''a'', PInt 0), (''b'', PRef 4)]]"

definition example_plain_sorter :: base_sorter where
  "example_plain_sorter = example_sorter\<lparr>params := PRef 5\<rparr>"

definition example_group_sorter :: base_sorter where
  "example_group_sorter =
     example_sorter\<lparr>grouping_property := Some ''group'', params := PRef 5,
       output_folders := [[''home'', ''tmp_example'', ''0'']]\<rparr>"

text \<open>
  An instance with three partitions, one per group \<open>0, 1, 2\<close>, as \<^verbatim>\<open>__init__\<close> builds it in
  the example store when the recording splits into these three groups
  (\<open>example_split_env\<close>), and methods that find a result with units \<open>1, 2\<close> in the first
  partition's folder, nothing in the second and a result with unit \<open>1\<close> in the third.
  The methods of \<open>raising_setup_methods\<close> raise in \<^verbatim>\<open>_setup_recording\<close>, as those of a
  sorter whose program is not found do; the methods of \<open>raising_run_methods\<close> raise in
  \<^verbatim>\<open>_run\<close>.
\<close>

definition example_group_recording :: "int \<Rightarrow> recording" where
  "example_group_recording g =
     \<lparr>channel_ids = [2 * g, 2 * g + 1],
      channel_property = (\<lambda>ch name. if name = ''group'' then Some (PInt g) else None),
      shared_channel_property_names = [''group''], sampling_frequency = 30000\<rparr>"

definition example_folder :: "string \<Rightarrow> path" where
  "example_folder i = [''home'', ''tmp_example'', i]"


definition example_multi_sorter :: base_sorter where
  "example_multi_sorter =
     example_sorter\<lparr>grouping_property := Some ''group'', params := PRef 5,
       recording_list :=
         [example_group_recording 0, example_group_recording 1, example_group_recording 2],
       output_folders := [example_folder ''0'', example_folder ''1'', example_folder ''2'']\<rparr>"

definition example_results :: "(path \<times> sorting) list" where
  "example_results =
     [(example_folder ''0'',
       \<lparr>unit_ids = [1, 2], unit_properties = [], sorting_frequency = None\<rparr>),
      (example_folder ''2'',
       \<lparr>unit_ids = [1], unit_properties = [((1, ''quality''), PStr ''good'')],
        sorting_frequency = None\<rparr>)]"

definition example_methods :: "(path list) sorter_methods" where
  "example_methods =
     silent_methods\<lparr>get_result_from_folder := (\<lambda>p w. Inr (map_of example_results p))\<rparr>"



text \<open>
  An instance whose two partitions were made on the channel property \<^verbatim>\<open>'shank'\<close>: the
  channels of partition \<open>sh\<close> have the shank \<open>sh\<close>, and every channel has the property
  \<^verbatim>\<open>'group'\<close> with the value \<open>grp\<close>, or does not have it when \<open>grp\<close> is \<open>None\<close>. The methods of
  \<open>example_shank_methods\<close> find a result with the unit \<open>1\<close> in every folder.
\<close>

definition example_shank_recording :: "pyval option \<Rightarrow> int \<Rightarrow> recording" where
  "example_shank_recording grp sh =
     \<lparr>channel_ids = [2 * sh, 2 * sh + 1],
      channel_property =
        (\<lambda>ch name. if name = ''shank'' then Some (PInt sh)
                    else if name = ''group'' then grp else None),
      shared_channel_property_names =
        (if grp = None then [''shank''] else [''shank'', ''group'']),
      sampling_frequency = 30000\<rparr>"

definition example_shank_sorter :: "pyval option \<Rightarrow> base_sorter" where
  "example_shank_sorter grp =
     example_sorter\<lparr>grouping_property := Some ''shank'', params := PRef 5,
       recording_list := [example_shank_recording grp 0, example_shank_recording grp 1],
       output_folders := [example_folder ''0'', example_folder ''1'']\<rparr>"

definition example_shank_methods :: "(path list) sorter_methods" where
  "example_shank_methods =
     silent_methods\<lparr>get_result_from_folder :=
       (\<lambda>p w. Inr (Some \<lparr>unit_ids = [1], unit_properties = [], sorting_frequency = None\<rparr>))\<rparr>"

section \<open>Properties of the parameter set\<close>

lemma bad_params_of_dict:
  "get_dict h d = Inr dflt \<Longrightarrow>
   bad_params_of h d ps = Inr (filter (\<lambda>p. p \<notin> set (map fst dflt)) ps)"
  by (induction ps) auto

lemma dict_update_keys:
  "fst ` set (dict_update d other) = fst ` set d \<union> fst ` set other"
  unfolding dict_update_def
proof (induction other arbitrary: d)
  case Nil
  then show ?case by simp
next
  case (Cons kv other)
  obtain k v where kv: "kv = (k, v)" by (cases kv)
  show ?case using Cons[of "AList.update k v d"]
    by (auto simp: kv AList.dom_update)
qed

lemma dict_update_other:
  "k \<notin> fst ` set other \<Longrightarrow> map_of (dict_update d other) k = map_of d k"
  unfolding dict_update_def
proof (induction other arbitrary: d)
  case Nil
  then show ?case by simp
next
  case (Cons kv other)
  obtain k' v where kv: "kv = (k', v)" by (cases kv)
  from Cons.prems have "k \<noteq> k'" "k \<notin> fst ` set other" by (auto simp: kv)
  then show ?case using Cons.IH[of "AList.update k' v d"]
    by (simp add: kv AList.update_conv')
qed

lemma dict_update_supplied:
  "distinct (map fst other) \<Longrightarrow> (k, v) \<in> set other \<Longrightarrow> map_of (dict_update d other) k = Some v"
proof (induction other arbitrary: d)
  case Nil
  then show ?case by simp
next
  case (Cons kv other)
  obtain k' v' where kv: "kv = (k', v')" by (cases kv)
  have step: "dict_update d ((k', v') # other) = dict_update (AList.update k' v' d) other"
    by (simp add: dict_update_def)
  show ?case
  proof (cases "(k, v) = kv")
    case True
    then have "k \<notin> fst ` set other" using Cons.prems(1) by (auto simp: kv)
    then show ?thesis using True
      by (simp add: step dict_update_other kv AList.update_conv')
  next
    case False
    then have "(k, v) \<in> set other" using Cons.prems(2) by simp
    moreover have "distinct (map fst other)" using Cons.prems(1) by simp
    ultimately show ?thesis using Cons.IH by (simp add: step kv)
  qed
qed

text \<open>
  Claim C2. \<^verbatim>\<open>set_params\<close> is atomic and reports every offending key: when the class's
  defaults are a dictionary and some supplied key is not one of its keys, the call raises
  the error that lists exactly the supplied keys that are no key of the defaults, all of
  them and in the order supplied, and it leaves the whole store (so the instance's
  parameter dictionary) as it was.
\<close>

theorem set_params_atomic:
  assumes "get_dict h (PRef (default_params_ref (cls self))) = Inr dflt"
    and "\<exists>k \<in> set (map fst kw). k \<notin> set (map fst dflt)"
  shows "set_params self kw h =
           (Inl (BadParameters (filter (\<lambda>k. k \<notin> set (map fst dflt)) (map fst kw))), h)"
  using assms(2)
  by (auto simp: set_params_def bad_params_of_dict[OF assms(1)] filter_empty_conv)

theorem set_params_atomic_witness:
  "set_params example_sorter [(''a'', PInt 1), (''z'', PInt 2)] example_heap =
     (Inl (BadParameters [''z'']), example_heap)"
  using set_params_atomic[of example_heap example_sorter "[(''a'', PInt 0), (''b'', PRef 0)]"
      "[(''a'', PInt 1), (''z'', PInt 2)]"]
  by (simp add: example_sorter_def example_class_def example_heap_def get_dict_def)

text \<open>
  Claim C10. A successful \<^verbatim>\<open>set_params\<close> call, every supplied key being a key of the
  class's defaults (keyword arguments have distinct names): the call returns normally, the
  only object of the store it changes is the instance's parameter dictionary, in which
  every supplied key now has the supplied value, every other key has the value it had,
  and the keys are the old keys and the supplied ones.
\<close>

theorem set_params_frame:
  assumes "get_dict h (PRef (default_params_ref (cls self))) = Inr dflt"
    and "params self = PRef a" and "get_dict h (PRef a) = Inr d"
    and "set (map fst kw) \<subseteq> set (map fst dflt)"
    and "distinct (map fst kw)"
  shows "set_params self kw h = (Inr (), h[a := PyDict (dict_update d kw)]) \<and>
         (\<forall>(k, v) \<in> set kw. map_of (dict_update d kw) k = Some v) \<and>
         (\<forall>k. k \<notin> set (map fst kw) \<longrightarrow> map_of (dict_update d kw) k = map_of d k) \<and>
         set (map fst (dict_update d kw)) = set (map fst d) \<union> set (map fst kw)"
proof -
  have "filter (\<lambda>k. k \<notin> set (map fst dflt)) (map fst kw) = []"
    using assms(4) by (auto simp: filter_empty_conv)
  then have 1: "set_params self kw h = (Inr (), h[a := PyDict (dict_update d kw)])"
    using assms(2,3) by (simp add: set_params_def bad_params_of_dict[OF assms(1)] del: filter_map)
  have 2: "\<forall>(k, v) \<in> set kw. map_of (dict_update d kw) k = Some v"
    using dict_update_supplied[OF assms(5)] by auto
  have 3: "\<forall>k. k \<notin> set (map fst kw) \<longrightarrow> map_of (dict_update d kw) k = map_of d k"
    using dict_update_other by simp
  have 4: "set (map fst (dict_update d kw)) = set (map fst d) \<union> set (map fst kw)"
    using dict_update_keys by simp
  from 1 2 3 4 show ?thesis by blast
qed

theorem set_params_frame_witness:
  "set_params example_sorter [(''a'', PInt 5)] example_heap =
     (Inr (), example_heap[3 := PyDict [(''a'', PInt 5), (''b'', PRef 2)]])"
  using set_params_frame[of example_heap example_sorter "[(''a'', PInt 0), (''b'', PRef 0)]" 3
      "[(''a'', PInt 0), (''b'', PRef 2)]" "[(''a'', PInt 5)]"]
  by (simp add: example_sorter_def example_class_def example_heap_def get_dict_def
      dict_update_def)

section \<open>Properties of the copy of the defaults\<close>

lemma deepcopy_list_length:
  "deepcopy_list cp h xs = Inr (h', ys) \<Longrightarrow> length ys = length xs"
  by (induction xs arbitrary: h h' ys) (auto split: sum.splits prod.splits)

lemma deepcopy_items_conv:
  "deepcopy_items cp h kvs =
     (case deepcopy_list cp h (map snd kvs) of
        Inl e \<Rightarrow> Inl e
      | Inr (h', ys) \<Rightarrow> Inr (h', zip (map fst kvs) ys))"
  by (induction kvs arbitrary: h) (auto split: sum.splits prod.splits)

lemma deepcopy_list_ext:
  assumes "\<And>h x h' y. cp h x = Inr (h', y) \<Longrightarrow> \<exists>e. h' = h @ e"
  shows "deepcopy_list cp h xs = Inr (h', ys) \<Longrightarrow> \<exists>e. h' = h @ e"
proof (induction xs arbitrary: h h' ys)
  case Nil
  then show ?case by simp
next
  case (Cons x xs)
  from Cons.prems obtain h1 y ys1 where
    1: "cp h x = Inr (h1, y)" and 2: "deepcopy_list cp h1 xs = Inr (h', ys1)"
    by (auto split: sum.splits prod.splits)
  from assms[OF 1] obtain e1 where "h1 = h @ e1" by blast
  moreover from Cons.IH[OF 2] obtain e2 where "h' = h1 @ e2" by blast
  ultimately show ?case by simp
qed

lemma deepcopy_ext: "deepcopy n h v = Inr (h', v') \<Longrightarrow> \<exists>e. h' = h @ e"
proof (induction n arbitrary: h v h' v')
  case 0
  then show ?case by (cases v) auto
next
  case (Suc n)
  have cp: "\<And>h x h' y. deepcopy n h x = Inr (h', y) \<Longrightarrow> \<exists>e. h' = h @ e"
    using Suc.IH by blast
  show ?case
  proof (cases v)
    case (PRef a)
    show ?thesis
    proof (cases "h ! a")
      case (PyList xs)
      with Suc.prems PRef obtain h1 ys where
        "deepcopy_list (deepcopy n) h xs = Inr (h1, ys)" "h' = h1 @ [PyList ys]"
        by (auto split: if_splits sum.splits prod.splits)
      with deepcopy_list_ext[OF cp] show ?thesis by fastforce
    next
      case (PyDict kvs)
      with Suc.prems PRef obtain h1 ys where
        "deepcopy_list (deepcopy n) h (map snd kvs) = Inr (h1, ys)"
        "h' = h1 @ [PyDict (zip (map fst kvs) ys)]"
        by (auto simp: deepcopy_items_conv split: if_splits sum.splits prod.splits)
      with deepcopy_list_ext[OF cp] show ?thesis by fastforce
    qed
  qed (use Suc.prems in auto)
qed

lemma deepcopy_dict_keys:
  assumes "get_dict h (PRef a) = Inr kvs" and "deepcopy n h (PRef a) = Inr (h', v')"
  shows "\<exists>e kvs'. h' = h @ e \<and> get_dict h' v' = Inr kvs' \<and> map fst kvs' = map fst kvs"
proof -
  from assms(1) have a: "a < length h" "h ! a = PyDict kvs"
    by (auto simp: get_dict_def split: if_splits pyobj.splits)
  from assms(2) obtain m where n: "n = Suc m" by (cases n) auto
  from assms(2) a n obtain h1 ys where
    1: "deepcopy_list (deepcopy m) h (map snd kvs) = Inr (h1, ys)" and
    2: "h' = h1 @ [PyDict (zip (map fst kvs) ys)]" and 3: "v' = PRef (length h1)"
    by (auto simp: deepcopy_items_conv split: sum.splits prod.splits)
  have "\<exists>e. h1 = h @ e"
    by (rule deepcopy_list_ext[where cp = "deepcopy m", OF _ 1]) (rule deepcopy_ext)
  then obtain e1 where e1: "h1 = h @ e1" by blast
  from deepcopy_list_length[OF 1] have "length ys = length kvs" by simp
  then have "map fst (zip (map fst kvs) ys) = map fst kvs" by simp
  then show ?thesis using 2 3 e1 by (simp add: get_dict_def)
qed

lemma those_Some_iff: "those ys = Some ts \<longleftrightarrow> ys = map Some ts"
  by (induction ys arbitrary: ts) (auto split: option.splits)

lemma map_Some_mono:
  assumes "\<And>x t. x \<in> set xs \<Longrightarrow> f x = Some t \<Longrightarrow> g x = Some t"
    and "map f xs = map Some ts"
  shows "map g xs = map Some ts"
  using assms by (induction xs arbitrary: ts) auto

lemma readval_mono: "readval n h v = Some t \<Longrightarrow> readval n (h @ e) v = Some t"
proof (induction n arbitrary: v t)
  case 0
  then show ?case by (cases v) auto
next
  case (Suc n)
  show ?case
  proof (cases v)
    case (PRef a)
    with Suc.prems have a: "a < length h" by (auto split: if_splits)
    show ?thesis
    proof (cases "h ! a")
      case (PyList xs)
      with Suc.prems PRef a obtain ts where
        "map (readval n h) xs = map Some ts" "t = ListOf ts"
        by (auto simp: those_Some_iff)
      moreover from this have "map (readval n (h @ e)) xs = map Some ts"
        using map_Some_mono[of xs "readval n h" "readval n (h @ e)" ts] Suc.IH by blast
      ultimately show ?thesis using PRef a PyList
        by (simp add: nth_append those_Some_iff)
    next
      case (PyDict kvs)
      with Suc.prems PRef a obtain ts where
        "map (readval n h) (map snd kvs) = map Some ts" "t = DictOf (zip (map fst kvs) ts)"
        by (auto simp: those_Some_iff)
      moreover from this have "map (readval n (h @ e)) (map snd kvs) = map Some ts"
        using map_Some_mono[of "map snd kvs" "readval n h" "readval n (h @ e)" ts] Suc.IH
        by blast
      ultimately show ?thesis using PRef a PyDict
        by (simp add: nth_append those_Some_iff)
    qed
  qed (use Suc.prems in auto)
qed

lemma fresh_mono: "L \<le> L' \<Longrightarrow> fresh L' v \<Longrightarrow> fresh L v"
  by (auto simp: fresh_def split: pyval.splits)

lemma all_fresh_mono: "L \<le> L' \<Longrightarrow> all_fresh L' obs \<Longrightarrow> all_fresh L obs"
  by (auto simp: all_fresh_def list_all_iff intro: fresh_mono)

lemma all_fresh_append: "all_fresh L (xs @ ys) \<longleftrightarrow> all_fresh L xs \<and> all_fresh L ys"
  by (auto simp: all_fresh_def)

lemma deepcopy_list_ok:
  assumes cp: "\<And>h x t. readval n h x = Some t \<Longrightarrow>
      \<exists>e y. cp h x = Inr (h @ e, y) \<and> readval n (h @ e) y = Some t \<and>
        all_fresh (length h) e \<and> fresh (length h) y"
  shows "map (readval n h) xs = map Some ts \<Longrightarrow>
      \<exists>e ys. deepcopy_list cp h xs = Inr (h @ e, ys) \<and>
        map (readval n (h @ e)) ys = map Some ts \<and>
        all_fresh (length h) e \<and> list_all (fresh (length h)) ys"
proof (induction xs arbitrary: h ts)
  case Nil
  then show ?case by (auto simp: all_fresh_def)
next
  case (Cons x xs)
  from Cons.prems obtain t1 ts1 where ts: "ts = t1 # ts1" and
    x: "readval n h x = Some t1" and xs: "map (readval n h) xs = map Some ts1"
    by (cases ts) auto
  from cp[OF x] obtain e1 y where
    1: "cp h x = Inr (h @ e1, y)" "readval n (h @ e1) y = Some t1"
       "all_fresh (length h) e1" "fresh (length h) y"
    by blast
  have "map (readval n (h @ e1)) xs = map Some ts1"
    using map_Some_mono[OF _ xs] readval_mono by blast
  from Cons.IH[OF this] obtain e2 ys where
    2: "deepcopy_list cp (h @ e1) xs = Inr ((h @ e1) @ e2, ys)"
       "map (readval n ((h @ e1) @ e2)) ys = map Some ts1"
       "all_fresh (length (h @ e1)) e2" "list_all (fresh (length (h @ e1))) ys"
    by blast
  have a: "deepcopy_list cp h (x # xs) = Inr (h @ (e1 @ e2), y # ys)"
    using 1(1) 2(1) by simp
  have b: "map (readval n (h @ (e1 @ e2))) (y # ys) = map Some ts"
    using readval_mono[OF 1(2), of e2] 2(2) ts by simp
  have c: "all_fresh (length h) (e1 @ e2)"
    using 1(3) all_fresh_mono[OF _ 2(3), of "length h"] by (simp add: all_fresh_append)
  have d: "list_all (fresh (length h)) (y # ys)"
    using 1(4) 2(4) by (auto simp: list_all_iff intro: fresh_mono[of "length h" "length (h @ e1)"])
  from a b c d show ?case by blast
qed

lemma deepcopy_ok:
  "readval n h v = Some t \<Longrightarrow>
     \<exists>e v'. deepcopy n h v = Inr (h @ e, v') \<and> readval n (h @ e) v' = Some t \<and>
       all_fresh (length h) e \<and> fresh (length h) v'"
proof (induction n arbitrary: h v t)
  case 0
  then show ?case by (cases v) (auto simp: all_fresh_def fresh_def)
next
  case (Suc n)
  show ?case
  proof (cases v)
    case (PRef a)
    with Suc.prems have a: "a < length h" by (auto split: if_splits)
    show ?thesis
    proof (cases "h ! a")
      case (PyList xs)
      with Suc.prems PRef a obtain ts where
        ts: "map (readval n h) xs = map Some ts" "t = ListOf ts"
        by (auto simp: those_Some_iff)
      from deepcopy_list_ok[of n "deepcopy n", OF Suc.IH ts(1)] obtain e ys where
        1: "deepcopy_list (deepcopy n) h xs = Inr (h @ e, ys)"
           "map (readval n (h @ e)) ys = map Some ts"
           "all_fresh (length h) e" "list_all (fresh (length h)) ys"
        by blast
      let ?e = "e @ [PyList ys]"
      have "map (readval n (h @ ?e)) ys = map Some ts"
        using map_Some_mono[OF _ 1(2)] readval_mono[of n "h @ e" _ _ "[PyList ys]"] by auto
      then have "readval (Suc n) (h @ ?e) (PRef (length (h @ e))) = Some t"
        using ts(2) by (simp add: nth_append those_Some_iff)
      moreover have "deepcopy (Suc n) h v = Inr (h @ ?e, PRef (length (h @ e)))"
        using PRef a PyList 1(1) by simp
      moreover have "all_fresh (length h) ?e"
        using 1(3,4) by (simp add: all_fresh_append) (simp add: all_fresh_def obj_vals_def)
      moreover have "fresh (length h) (PRef (length (h @ e)))" by (simp add: fresh_def)
      ultimately show ?thesis by blast
    next
      case (PyDict kvs)
      with Suc.prems PRef a obtain ts where
        ts: "map (readval n h) (map snd kvs) = map Some ts" "t = DictOf (zip (map fst kvs) ts)"
        by (auto simp: those_Some_iff)
      from deepcopy_list_ok[of n "deepcopy n", OF Suc.IH ts(1)] obtain e ys where
        1: "deepcopy_list (deepcopy n) h (map snd kvs) = Inr (h @ e, ys)"
           "map (readval n (h @ e)) ys = map Some ts"
           "all_fresh (length h) e" "list_all (fresh (length h)) ys"
        by blast
      have len: "length ys = length kvs" using deepcopy_list_length[OF 1(1)] by simp
      let ?d = "PyDict (zip (map fst kvs) ys)"
      let ?e = "e @ [?d]"
      have "map (readval n (h @ ?e)) ys = map Some ts"
        using map_Some_mono[OF _ 1(2)] readval_mono[of n "h @ e" _ _ "[?d]"] by auto
      then have "readval (Suc n) (h @ ?e) (PRef (length (h @ e))) = Some t"
        using ts(2) len by (simp add: nth_append those_Some_iff)
      moreover have "deepcopy (Suc n) h v = Inr (h @ ?e, PRef (length (h @ e)))"
        using PRef a PyDict 1(1) by (simp add: deepcopy_items_conv)
      moreover have "all_fresh (length h) ?e"
        using 1(3,4) len by (simp add: all_fresh_append) (simp add: all_fresh_def obj_vals_def)
      moreover have "fresh (length h) (PRef (length (h @ e)))" by (simp add: fresh_def)
      ultimately show ?thesis by blast
    qed
  qed (use Suc.prems in \<open>auto simp: all_fresh_def fresh_def\<close>)
qed

lemma apply_mutation_ext:
  "length h \<le> target m \<Longrightarrow> \<exists>e'. apply_mutation m (h @ e) = h @ e'"
  by (cases m) (auto simp: list_update_append split: pyobj.splits)

lemma mutate_ext:
  "list_all (\<lambda>m. length h \<le> target m) ms \<Longrightarrow> \<exists>e'. mutate ms (h @ e) = h @ e'"
  unfolding mutate_def
proof (induction ms arbitrary: e)
  case Nil
  then show ?case by simp
next
  case (Cons m ms)
  then obtain e1 where "apply_mutation m (h @ e) = h @ e1"
    using apply_mutation_ext[of h m e] by auto
  then show ?case using Cons by auto
qed

lemma default_params_example:
  "default_params example_env example_class example_heap = (Inr (PRef 5), example_heap2)"
  by (simp add: default_params_def example_env_def example_class_def example_heap_def
      example_heap2_def numeral_3_eq_3)

lemma readval_example:
  "readval (recursion_limit example_env) example_heap (PRef (default_params_ref example_class)) =
     Some (DictOf [(''a'', Atom (PInt 0)), (''b'', ListOf [Atom (PInt 1)])])"
  by (simp add: example_heap_def example_env_def example_class_def numeral_3_eq_3)

text \<open>
  Claim C8. \<^verbatim>\<open>default_params\<close>, called on the class or through the registry's
  \<^verbatim>\<open>get_default_params\<close> with an argument that resolves to the class, returns a fresh and
  independent copy of the class's defaults, whenever the defaults can be read within the
  recursion limit. The call returns normally and only allocates; the value returned reads
  as the defaults do; it refers to a new object, and no new object refers to an old one.
  Whatever sequence of mutations the caller then applies to the objects of the copy, the
  old objects are as they were, the class's defaults read as before, and the next call
  again returns a value that reads as the declared defaults.
\<close>

theorem default_params_independent:
  assumes "f = default_params os c \<or>
      (resolve_sorter md a = Inr cid \<and> c = classes cid \<and> f = get_default_params os classes md a)"
    and "readval (recursion_limit os) h (PRef (default_params_ref c)) = Some t"
    and "list_all (\<lambda>m. length h \<le> target m) ms"
  shows "\<exists>e v. f h = (Inr v, h @ e) \<and>
           readval (recursion_limit os) (h @ e) v = Some t \<and>
           fresh (length h) v \<and> all_fresh (length h) e \<and>
           (\<exists>e'. mutate ms (h @ e) = h @ e' \<and>
              readval (recursion_limit os) (h @ e') (PRef (default_params_ref c)) = Some t \<and>
              (\<exists>e2 v2. f (h @ e') = (Inr v2, (h @ e') @ e2) \<and>
                 readval (recursion_limit os) ((h @ e') @ e2) v2 = Some t))"
proof -
  have f: "f = default_params os c"
    using assms(1) by (auto simp: get_default_params_def fun_eq_iff)
  from deepcopy_ok[OF assms(2)] obtain e v where
    1: "deepcopy (recursion_limit os) h (PRef (default_params_ref c)) = Inr (h @ e, v)"
       "readval (recursion_limit os) (h @ e) v = Some t"
       "all_fresh (length h) e" "fresh (length h) v"
    by blast
  from mutate_ext[OF assms(3)] obtain e' where 2: "mutate ms (h @ e) = h @ e'" by blast
  have 3: "readval (recursion_limit os) (h @ e') (PRef (default_params_ref c)) = Some t"
    using readval_mono[OF assms(2)] .
  from deepcopy_ok[OF 3] obtain e2 v2 where
    4: "deepcopy (recursion_limit os) (h @ e') (PRef (default_params_ref c)) = Inr ((h @ e') @ e2, v2)"
       "readval (recursion_limit os) ((h @ e') @ e2) v2 = Some t"
    by blast
  have "f h = (Inr v, h @ e)" using f 1(1) by (simp add: default_params_def)
  moreover have "f (h @ e') = (Inr v2, (h @ e') @ e2)"
    using f 4(1) by (simp add: default_params_def)
  ultimately show ?thesis using 1 2 3 4(2) by blast
qed

theorem default_params_independent_witness:
  "\<exists>e v. default_params example_env example_class example_heap = (Inr v, example_heap @ e) \<and>
     readval (recursion_limit example_env) (example_heap @ e) v =
       Some (DictOf [(''a'', Atom (PInt 0)), (''b'', ListOf [Atom (PInt 1)])]) \<and>
     fresh (length example_heap) v \<and> all_fresh (length example_heap) e \<and>
     (\<exists>e'. mutate [SetItem 5 ''a'' (PInt 7), ListAppend 4 (PInt 2)] (example_heap @ e)
             = example_heap @ e' \<and>
        readval (recursion_limit example_env) (example_heap @ e')
            (PRef (default_params_ref example_class)) =
          Some (DictOf [(''a'', Atom (PInt 0)), (''b'', ListOf [Atom (PInt 1)])]) \<and>
        (\<exists>e2 v2. default_params example_env example_class (example_heap @ e')
                   = (Inr v2, (example_heap @ e') @ e2) \<and>
           readval (recursion_limit example_env) ((example_heap @ e') @ e2) v2 =
             Some (DictOf [(''a'', Atom (PInt 0)), (''b'', ListOf [Atom (PInt 1)])])))"
proof -
  have 1: "default_params example_env example_class = default_params example_env example_class \<or>
      (resolve_sorter example_sorterlist (Obj 0) = Inr 0 \<and> example_class = example_classes 0 \<and>
       default_params example_env example_class =
         get_default_params example_env example_classes example_sorterlist (Obj 0))"
    by simp
  have 3: "list_all (\<lambda>m. length example_heap \<le> target m)
      [SetItem 5 ''a'' (PInt 7), ListAppend 4 (PInt 2)]"
    by (simp add: example_heap_def)
  show ?thesis
    by (rule default_params_independent[OF 1 readval_example 3])
qed

section \<open>The invariant of the parameter set\<close>

lemma set_params_rejects:
  assumes "get_dict h (PRef (default_params_ref (cls self))) = Inr dflt"
    and "\<exists>k \<in> set (map fst kw). k \<notin> set (map fst dflt)"
  shows "set_params self kw h =
           (Inl (BadParameters (filter (\<lambda>k. k \<notin> set (map fst dflt)) (map fst kw))), h)"
  using assms(2)
  by (auto simp: set_params_def bad_params_of_dict[OF assms(1)] filter_empty_conv)

lemma set_params_keeps_keys:
  assumes "params_keys_ok self h"
  shows "params_keys_ok self (snd (set_params self kw h))"
proof -
  from assms obtain d dflt where
    d: "get_dict h (params self) = Inr d" and
    dflt: "get_dict h (PRef (default_params_ref (cls self))) = Inr dflt" and
    sub: "set (map fst d) \<subseteq> set (map fst dflt)"
    by (auto simp: params_keys_ok_def split: sum.splits)
  from d obtain a where a: "params self = PRef a" "a < length h" "h ! a = PyDict d"
    by (auto simp: get_dict_def split: pyval.splits if_splits pyobj.splits)
  let ?bad = "filter (\<lambda>k. k \<notin> set (map fst dflt)) (map fst kw)"
  show ?thesis
  proof (cases "?bad = []")
    case False
    then have "\<exists>k \<in> set (map fst kw). k \<notin> set (map fst dflt)"
      by (auto simp: filter_empty_conv)
    from set_params_rejects[OF dflt this] show ?thesis using assms by simp
  next
    case True
    then have kw: "set (map fst kw) \<subseteq> set (map fst dflt)"
      by (auto simp: filter_empty_conv)
    let ?h = "h[a := PyDict (dict_update d kw)]"
    from True have sp: "set_params self kw h = (Inr (), ?h)"
      using a d by (simp add: set_params_def bad_params_of_dict[OF dflt] del: filter_map)
    have new: "get_dict ?h (params self) = Inr (dict_update d kw)"
      using a by (simp add: get_dict_def)
    have keys: "set (map fst (dict_update d kw)) \<subseteq> set (map fst dflt)"
      using dict_update_keys[of d kw] sub kw by auto
    show ?thesis
    proof (cases "default_params_ref (cls self) = a")
      case True
      then show ?thesis using sp new a by (simp add: params_keys_ok_def)
    next
      case False
      then have "get_dict ?h (PRef (default_params_ref (cls self))) = Inr dflt"
        using dflt by (auto simp: get_dict_def split: if_splits)
      then show ?thesis using sp new keys by (simp add: params_keys_ok_def)
    qed
  qed
qed

lemma init_keys_ok:
  assumes "get_dict h (PRef (default_params_ref c)) = Inr dflt"
    and "init os c recording output_folder v g p d h w = (Inr s, h', w')"
  shows "params_keys_ok s h'"
proof -
  from assms(2) obtain pv where
    dp: "default_params os c h = (Inr pv, h')" and s: "params s = pv" "cls s = c"
    by (auto simp: init_def Let_def split: if_splits sum.splits prod.splits option.splits)
  then have "deepcopy (recursion_limit os) h (PRef (default_params_ref c)) = Inr (h', pv)"
    by (auto simp: default_params_def split: sum.splits prod.splits)
  from deepcopy_dict_keys[OF assms(1) this] obtain e kvs' where
    e: "h' = h @ e" "get_dict h' pv = Inr kvs'" "map fst kvs' = map fst dflt"
    by blast
  from assms(1) have "get_dict h' (PRef (default_params_ref c)) = Inr dflt"
    using e(1) by (auto simp: get_dict_def nth_append split: if_splits)
  then show ?thesis using e s by (simp add: params_keys_ok_def)
qed

lemma init_example_plain:
  "init example_env example_class example_recording None False None False False example_heap []
     = (Inr example_plain_sorter, example_heap2, [[''home'', ''tmp_example'']])"
  by (simp add: init_def default_params_example Let_def)
     (simp add: example_env_def example_class_def example_recording_def example_sorter_def
        example_plain_sorter_def)

lemma init_example_group:
  "init example_env example_class example_recording None False (Some ''group'') False False
     example_heap []
     = (Inr example_group_sorter, example_heap2, [[''home'', ''tmp_example'', ''0'']])"
  by (simp add: init_def default_params_example Let_def)
     (simp add: example_env_def example_class_def example_recording_def example_sorter_def
        example_group_sorter_def joinpath_def str_nat.simps)

lemma example_keys_ok: "params_keys_ok example_sorter example_heap"
  by (simp add: params_keys_ok_def get_dict_def example_sorter_def example_class_def
      example_heap_def)

text \<open>
  Claim C9. The keys of the instance's parameters are always keys of the class's
  defaults: the invariant \<open>params_keys_ok\<close> holds of the instance and the store that
  \<^verbatim>\<open>__init__\<close> returns (the class's defaults being a dictionary), and every \<^verbatim>\<open>set_params\<close>
  call preserves it, whether the call returns normally or raises.
\<close>

theorem params_keys_invariant:
  "(get_dict h (PRef (default_params_ref c)) = Inr dflt \<longrightarrow>
      init os c recording output_folder v g p d h w = (Inr s, h', w') \<longrightarrow>
      params_keys_ok s h') \<and>
   (params_keys_ok self h0 \<longrightarrow> params_keys_ok self (snd (set_params self kw h0)))"
proof (intro conjI impI)
  assume "get_dict h (PRef (default_params_ref c)) = Inr dflt"
    and "init os c recording output_folder v g p d h w = (Inr s, h', w')"
  then show "params_keys_ok s h'" by (rule init_keys_ok)
next
  assume "params_keys_ok self h0"
  then show "params_keys_ok self (snd (set_params self kw h0))" by (rule set_params_keeps_keys)
qed

theorem params_keys_invariant_witness:
  "params_keys_ok example_plain_sorter example_heap2 \<and>
   params_keys_ok example_sorter
     (snd (set_params example_sorter [(''a'', PInt 5)] example_heap)) \<and>
   params_keys_ok example_sorter
     (snd (set_params example_sorter [(''z'', PInt 5)] example_heap))"
  using params_keys_invariant[where h = example_heap and c = example_class
      and dflt = "[(''a'', PInt 0), (''b'', PRef 0)]" and os = example_env
      and recording = example_recording and output_folder = None and v = False and g = None
      and p = False and d = False and w = "[]" and s = example_plain_sorter
      and h' = example_heap2 and w' = "[[''home'', ''tmp_example'']]"
      and self = example_sorter and ?h0.0 = example_heap and kw = "[(''a'', PInt 5)]"]
    params_keys_invariant[where h = example_heap and c = example_class
      and dflt = "[(''a'', PInt 0), (''b'', PRef 0)]" and os = example_env
      and recording = example_recording and output_folder = None and v = False and g = None
      and p = False and d = False and w = "[]" and s = example_plain_sorter
      and h' = example_heap2 and w' = "[[''home'', ''tmp_example'']]"
      and self = example_sorter and ?h0.0 = example_heap and kw = "[(''z'', PInt 5)]"]
    init_example_plain example_keys_ok
  by (simp add: get_dict_def example_class_def example_heap_def)

section \<open>Properties of the directory layout, the results and the registry\<close>

text \<open>
  Claim C5, as amended. When \<^verbatim>\<open>__init__\<close> returns an instance: with no grouping key, the
  single partition is the recording itself and its working directory is the base output
  directory; with a grouping key, the working directories are the numbered
  subdirectories \<open>0, 1, ...\<close> of the base output directory, one per partition, and this is
  so also when the grouping yields a single partition, whose directory is the
  subdirectory \<open>0\<close>.
\<close>

theorem init_output_folders:
  assumes "init os c recording output_folder v g p d h w = (Inr s, h', w')"
  shows "(g = None \<longrightarrow> recording_list s = [recording] \<and>
            output_folders s =
              [absolute os (case output_folder of None \<Rightarrow> ''tmp_'' @ sorter_name c | Some f \<Rightarrow> f)]) \<and>
         (g \<noteq> None \<longrightarrow>
            output_folders s =
              map (\<lambda>i. joinpath
                     (absolute os (case output_folder of None \<Rightarrow> ''tmp_'' @ sorter_name c | Some f \<Rightarrow> f))
                     (str_nat i))
                [0..<max 1 (length (recording_list s))])"
  using assms
  by (auto simp: init_def Let_def max_def eq_commute[of "Suc 0"]
      split: if_splits sum.splits prod.splits option.splits)

theorem init_output_folders_witness:
  "output_folders example_group_sorter =
     map (\<lambda>i. joinpath [''home'', ''tmp_example''] (str_nat i)) [0..<1] \<and>
   recording_list example_plain_sorter = [example_recording] \<and>
   output_folders example_plain_sorter = [[''home'', ''tmp_example'']]"
  using init_output_folders[OF init_example_group] init_output_folders[OF init_example_plain]
  by (simp add: example_env_def example_class_def example_group_sorter_def example_sorter_def)

text \<open>
  Claim C5 as it was stated fails for a grouping property that yields one group: the
  example recording has one group, \<^verbatim>\<open>__init__\<close> builds one partition, and the partition's
  working directory is the subdirectory \<open>0\<close>, not the base output directory.
\<close>

theorem init_single_group_counterexample:
  "fst (init example_env example_class example_recording None False (Some ''group'') False False
          example_heap []) = Inr example_group_sorter \<and>
   length (recording_list example_group_sorter) = 1 \<and>
   output_folders example_group_sorter \<noteq>
     [absolute example_env (''tmp_'' @ sorter_name example_class)]"
  by (simp add: init_example_group)
     (simp add: example_group_sorter_def example_sorter_def example_env_def example_class_def)

text \<open>
  Claim C4, at the failing input: one partition whose output folder holds no result. The
  variable \<^verbatim>\<open>sorting\<close> is \<^verbatim>\<open>None\<close> and the last statement of \<^verbatim>\<open>get_result\<close> calls
  \<^verbatim>\<open>set_sampling_frequency\<close> on it, so the call raises instead of returning \<^verbatim>\<open>None\<close>.
\<close>

theorem get_result_single_none:
  "get_result example_env silent_methods example_sorter [] =
     (Inl (NoneTypeAttribute ''set_sampling_frequency''), [])"
  by (simp add: get_result_def get_result_list_def example_sorter_def silent_methods_def
      nth_py_def)

text \<open>
  Claim C6, at the failing input: the module is loaded while no sorter is installed, then
  \<^verbatim>\<open>set_kilosort_path\<close> is given a folder that holds \<^verbatim>\<open>preprocessData.m\<close>. The class's
  installed flag becomes true, and \<^verbatim>\<open>installed_sorters()\<close> still returns the empty list,
  because it reads the list computed when the module was loaded.
\<close>

theorem installed_sorters_stale:
  "installed (set_kilosort_path example_env [[''home'', ''KiloSort'', ''preprocessData.m'']]
       ''KiloSort'' example_classes KilosortSorter) \<and>
   installed_sorters
     (set_kilosort_path example_env [[''home'', ''KiloSort'', ''preprocessData.m'']]
       ''KiloSort'' example_classes)
     example_sorterlist = []"
  by (simp add: set_kilosort_path_def check_if_installed_def example_env_def joinpath_def
      installed_sorters_def example_sorterlist_def load_sorterlist_def example_classes_def
      KilosortSorter_def)

text \<open>
  Claim C7, at the failing input: a name that is not registered makes \<^verbatim>\<open>run_sorter\<close> and
  \<^verbatim>\<open>get_default_params\<close> raise the \<^verbatim>\<open>KeyError\<close> of the dictionary lookup, while an object
  that is no registered class makes them raise \<^verbatim>\<open>ValueError('Unknown sorter')\<close>; both are
  raised before anything else is done, and they are not the same error.
\<close>

theorem unknown_name_key_error:
  "run_sorter example_env example_classes (\<lambda>c. silent_methods) example_sorterlist []
      (Str ''nosuchsorter'') example_recording None False None False False [] example_heap []
     = (Inl (KeyError ''nosuchsorter''), example_heap, []) \<and>
   run_sorter example_env example_classes (\<lambda>c. silent_methods) example_sorterlist []
      (Obj 42) example_recording None False None False False [] example_heap []
     = (Inl (ValueError ''Unknown sorter''), example_heap, []) \<and>
   get_default_params example_env example_classes example_sorterlist (Str ''nosuchsorter'')
      example_heap = (Inl (KeyError ''nosuchsorter''), example_heap) \<and>
   get_default_params example_env example_classes example_sorterlist (Obj 42)
      example_heap = (Inl (ValueError ''Unknown sorter''), example_heap)"
  by (simp add: run_sorter_def get_default_params_def resolve_sorter_def example_sorterlist_def
      load_sorterlist_def example_classes_def)

section \<open>The combined result of a run with several partitions\<close>

lemma get_result_list_from_length:
  "get_result_list_from m folders i recs w = Inr sl \<Longrightarrow> length sl = length recs"
  by (induction recs arbitrary: i sl) (auto split: sum.splits)

lemma tag_groups_ok:
  "map first_channel_group (drop i rl) = map Inr grps \<Longrightarrow> length sl = length grps \<Longrightarrow>
   tag_groups rl i sl = Inr (map (\<lambda>(g, so). map_option (tag_units g) so) (zip grps sl))"
proof (induction sl arbitrary: i grps)
  case Nil
  then show ?case by simp
next
  case (Cons so sl)
  then obtain g gs where grps: "grps = g # gs" by (cases grps) auto
  from Cons.prems(1) grps have i: "i < length rl" by (cases "i < length rl") auto
  then have d: "drop i rl = rl ! i # drop (Suc i) rl" by (simp add: Cons_nth_drop_Suc)
  from Cons.prems(1) grps d have 1: "first_channel_group (rl ! i) = Inr g"
    and 2: "map first_channel_group (drop (Suc i) rl) = map Inr gs" by auto
  from Cons.prems(2) grps have 3: "length sl = length gs" by simp
  show ?case using Cons.IH[OF 2 3] 1 i grps by (simp add: nth_py_def)
qed

lemma map_filter_map_id: "List.map_filter (\<lambda>x. x) (map f xs) = List.map_filter f xs"
  by (induction xs) (auto simp: map_filter_simps split: option.splits)

lemma fold_set_unit_property_ids:
  "unit_ids (fold (\<lambda>unit. set_unit_property unit name v) us s) = unit_ids s"
  by (induction us arbitrary: s) (auto simp: set_unit_property_def)

lemma fold_set_unit_property_get:
  "map_of (unit_properties (fold (\<lambda>unit. set_unit_property unit name v) us s)) (u, n) =
     (if u \<in> set us \<and> n = name then Some v else map_of (unit_properties s) (u, n))"
  by (induction us arbitrary: s) (auto simp: set_unit_property_def AList.update_conv')

lemma tag_units_ids: "unit_ids (tag_units g s) = unit_ids s"
  by (simp add: tag_units_def fold_set_unit_property_ids)

lemma tag_units_group:
  "u \<in> set (unit_ids s) \<Longrightarrow> get_unit_property (tag_units g s) u ''group'' = Some g"
  by (simp add: tag_units_def get_unit_property_def fold_set_unit_property_get)

lemma tag_units_other:
  "n \<noteq> ''group'' \<Longrightarrow> get_unit_property (tag_units g s) u n = get_unit_property s u n"
  by (simp add: tag_units_def get_unit_property_def fold_set_unit_property_get)

lemma example_result_list:
  "get_result_list example_methods example_multi_sorter [] =
     Inr [Some \<lparr>unit_ids = [1, 2], unit_properties = [], sorting_frequency = None\<rparr>, None,
          Some \<lparr>unit_ids = [1], unit_properties = [((1, ''quality''), PStr ''good'')],
                sorting_frequency = None\<rparr>]"
  by (simp add: get_result_list_def example_methods_def silent_methods_def
      example_multi_sorter_def example_sorter_def example_results_def example_folder_def
      nth_py_def)

lemma example_groups:
  "map first_channel_group (recording_list example_multi_sorter) =
     map Inr [PInt 0, PInt 1, PInt 2]"
  by (simp add: example_multi_sorter_def example_sorter_def example_group_recording_def
      first_channel_group_def nth_py_def get_channel_property_def)

text \<open>
  What \<^verbatim>\<open>get_result\<close> does when the first channel of every partition has the property
  \<^verbatim>\<open>'group'\<close>. An instance with more than one partition, whose output folders were parsed
  into the result slots \<open>sl\<close> and whose partitions have the groups \<open>grps\<close> on their first
  channels: \<^verbatim>\<open>get_result\<close> returns one combined result that holds, in partition order,
  exactly the results of the partitions whose slot is not \<^verbatim>\<open>None\<close>, each tagged with the
  group of its own partition. There is one slot per partition, and tagging a result
  keeps its units, gives every unit of it the group as property \<^verbatim>\<open>'group'\<close>, and leaves every
  other property as it was.
\<close>

lemma get_result_multi:
  assumes "get_result_list m self w = Inr sl"
    and "1 < length (recording_list self)"
    and "map first_channel_group (recording_list self) = map Inr grps"
  shows "get_result os m self w =
           (Inr (MultiSortingExtractor
                   (List.map_filter (\<lambda>(g, so). map_option (tag_units g) so) (zip grps sl))
                   (Some (sampling_frequency (recording_list self ! 0)))),
            if delete_folders self then fold (rmtree os) (output_folders self) w else w) \<and>
         length sl = length (recording_list self) \<and>
         (\<forall>g s. unit_ids (tag_units g s) = unit_ids s \<and>
            (\<forall>u \<in> set (unit_ids s). get_unit_property (tag_units g s) u ''group'' = Some g) \<and>
            (\<forall>u n. n \<noteq> ''group'' \<longrightarrow>
               get_unit_property (tag_units g s) u n = get_unit_property s u n))"
proof -
  have len: "length sl = length (recording_list self)"
    using assms(1) by (simp add: get_result_list_def get_result_list_from_length)
  have "length grps = length (recording_list self)"
    using assms(3) by (metis length_map)
  with len have lg: "length sl = length grps" by simp
  have tg: "tag_groups (recording_list self) 0 sl =
      Inr (map (\<lambda>(g, so). map_option (tag_units g) so) (zip grps sl))"
    using tag_groups_ok[of 0 "recording_list self" grps sl] assms(3) lg by simp
  have ne: "recording_list self \<noteq> []" using assms(2) by auto
  have 1: "get_result os m self w =
           (Inr (MultiSortingExtractor
                   (List.map_filter (\<lambda>(g, so). map_option (tag_units g) so) (zip grps sl))
                   (Some (sampling_frequency (recording_list self ! 0)))),
            if delete_folders self then fold (rmtree os) (output_folders self) w else w)"
    using assms(1,2) len tg ne
    by (simp add: get_result_def map_filter_map_id nth_py_def set_sampling_frequency_def)
  show ?thesis using 1 len by (simp add: tag_units_ids tag_units_group tag_units_other)
qed

lemma get_result_multi_example:
  "get_result example_env example_methods example_multi_sorter [] =
     (Inr (MultiSortingExtractor
        [\<lparr>unit_ids = [1, 2],
          unit_properties = [((1, ''group''), PInt 0), ((2, ''group''), PInt 0)],
          sorting_frequency = None\<rparr>,
         \<lparr>unit_ids = [1],
          unit_properties = [((1, ''quality''), PStr ''good''), ((1, ''group''), PInt 2)],
          sorting_frequency = None\<rparr>]
        (Some 30000)), [])"
  using get_result_multi[OF example_result_list _ example_groups, of example_env]
  by (simp add: example_multi_sorter_def example_sorter_def example_group_recording_def
      map_filter_simps tag_units_def set_unit_property_def)

text \<open>
  Claim C3, at the failing input: two partitions made on the channel property
  \<^verbatim>\<open>'shank'\<close>, each with a result. The loop of \<^verbatim>\<open>get_result\<close> reads the property \<^verbatim>\<open>'group'\<close>
  of the first channel, not the property the partitions were made on. When every channel
  has the group \<open>7\<close>, the units of both partitions are tagged \<open>7\<close>, although the second
  partition is the shank \<open>1\<close>; when the channels have no property \<^verbatim>\<open>'group'\<close>, the call
  raises instead of returning a combined result.
\<close>

theorem get_result_reads_group_property:
  "get_result example_env example_shank_methods (example_shank_sorter (Some (PInt 7))) [] =
     (Inr (MultiSortingExtractor
        [\<lparr>unit_ids = [1], unit_properties = [((1, ''group''), PInt 7)],
          sorting_frequency = None\<rparr>,
         \<lparr>unit_ids = [1], unit_properties = [((1, ''group''), PInt 7)],
          sorting_frequency = None\<rparr>]
        (Some 30000)), []) \<and>
   grouping_property (example_shank_sorter (Some (PInt 7))) = Some ''shank'' \<and>
   channel_property (recording_list (example_shank_sorter (Some (PInt 7))) ! 1) 2 ''shank'' =
     Some (PInt 1) \<and>
   get_result example_env example_shank_methods (example_shank_sorter None) [] =
     (Inl (Raised ''get_channel_property''), [])"
  by (simp add: get_result_def get_result_list_def example_shank_methods_def
      silent_methods_def example_shank_sorter_def example_sorter_def example_folder_def
      example_shank_recording_def example_env_def first_channel_group_def
      get_channel_property_def nth_py_def map_filter_simps tag_units_def
      set_unit_property_def set_sampling_frequency_def)

section \<open>The order of the calls made by run\<close>













end
